theory Spec2Isabelle
  imports Main "HOL-Library.Word"
begin

section \<open>Characters, strings and bytes\<close>

text \<open>
  A \<open>QChar\<close> is one UTF-16 code unit, a \<open>QString\<close> a sequence of them, a
  \<open>QByteArray\<close> a sequence of bytes.
\<close>

type_synonym qchar = "16 word"
type_synonym qstring = "qchar list"

text \<open>
  A C++ \<open>int\<close> is a word of 32 bits read with \<open>sint\<close>; \<open><s\<close> is its order, and
  \<open>+\<close> and \<open>-\<close> wrap around where C++ leaves the overflow undefined.
\<close>

type_synonym int32 = "32 word"

definition LF :: qchar where
  "LF = 0x000A"

definition CR :: qchar where
  "CR = 0x000D"

definition Nbsp :: qchar where
  "Nbsp = 0x00A0"

definition Space :: qchar where
  "Space = 0x0020"

definition LineSeparator :: qchar where
  "LineSeparator = 0x2028"

definition ParagraphSeparator :: qchar where
  "ParagraphSeparator = 0x2029"

definition QTextBeginningOfFrame :: qchar where
  "QTextBeginningOfFrame = 0xFDD0"

definition QTextEndOfFrame :: qchar where
  "QTextEndOfFrame = 0xFDD1"

text \<open>
  \<open>QString::replace(QChar before, const QString &after)\<close>: every occurrence of the
  character is replaced by the string.
\<close>

definition QString_replace :: "qchar \<Rightarrow> qstring \<Rightarrow> qstring \<Rightarrow> qstring" where
  "QString_replace before after s = concat (map (\<lambda>c. if c = before then after else [c]) s)"


section \<open>The text widget behind a document\<close>

text \<open>
  \<open>TextDocument\<close> keeps its text in a \<open>QPlainTextEdit\<close>. The widget's
  \<open>QTextDocument\<close> stores the characters of all blocks (lines) in one buffer, each block
  but the last ended by U+2029; the offsets of the source are indices into that buffer,
  from 0 up to and including its length. The widget also owns the text cursor, an anchor
  and a position. Where a step of the cursor to the right leads is decided by the
  widget's text layout (it skips over a surrogate pair or a combining sequence in one
  step, and goes backwards in a right-to-left block); the layout is a parameter, a
  function from the buffer and a position to the position after the step.
\<close>

record QTextCursor =
  cur_anchor :: nat
  cur_position :: nat

record QPlainTextEdit =
  doc_chars :: qstring
  doc_cursor :: QTextCursor

datatype MoveMode = MoveAnchor | KeepAnchor

definition blockCount :: "qstring \<Rightarrow> nat" where
  "blockCount cs = Suc (length (filter (\<lambda>c. c = ParagraphSeparator) cs))"

text \<open>The number of the block that holds offset \<open>p\<close>, and the offset where it starts.\<close>

definition blockNumberAt :: "qstring \<Rightarrow> nat \<Rightarrow> nat" where
  "blockNumberAt cs p = length (filter (\<lambda>c. c = ParagraphSeparator) (take p cs))"

definition blockPositionAt :: "qstring \<Rightarrow> nat \<Rightarrow> nat" where
  "blockPositionAt cs p = p - length (takeWhile (\<lambda>c. c \<noteq> ParagraphSeparator) (rev (take p cs)))"

text \<open>
  \<open>QTextDocument::findBlock(pos)\<close>: the block that contains \<open>pos\<close>, as the pair of
  its number and its start; an invalid block (\<open>None\<close>) when \<open>pos\<close> is outside the
  document.
\<close>

definition findBlock :: "qstring \<Rightarrow> int \<Rightarrow> (nat \<times> nat) option" where
  "findBlock cs pos =
     (if 0 \<le> pos \<and> pos \<le> int (length cs)
      then Some (blockNumberAt cs (nat pos), blockPositionAt cs (nat pos))
      else None)"

text \<open>The start of block number \<open>n\<close>, scanning the buffer for the \<open>n\<close>-th separator.\<close>

fun blockStart :: "qstring \<Rightarrow> nat \<Rightarrow> nat option" where
  "blockStart cs 0 = Some 0"
| "blockStart [] (Suc n) = None"
| "blockStart (c # cs) (Suc n) =
     map_option Suc (blockStart cs (if c = ParagraphSeparator then n else Suc n))"

text \<open>
  \<open>QTextDocument::findBlockByNumber(n)\<close>: the start of block \<open>n\<close>; an invalid block
  when there is no such block.
\<close>

definition findBlockByNumber :: "qstring \<Rightarrow> int \<Rightarrow> nat option" where
  "findBlockByNumber cs n = (if 0 \<le> n then blockStart cs (nat n) else None)"

text \<open>
  \<open>QTextCursor::setPosition(pos, mode)\<close>: a position outside the document is refused
  and the cursor stays as it is.
\<close>

definition cursor_setPosition :: "qstring \<Rightarrow> QTextCursor \<Rightarrow> int \<Rightarrow> MoveMode \<Rightarrow> QTextCursor" where
  "cursor_setPosition cs cur pos mode =
     (if pos < 0 \<or> int (length cs) < pos then cur
      else (case mode of
              MoveAnchor \<Rightarrow> \<lparr>cur_anchor = nat pos, cur_position = nat pos\<rparr>
            | KeepAnchor \<Rightarrow> cur\<lparr>cur_position := nat pos\<rparr>))"

text \<open>
  \<open>QTextCursor::movePosition(QTextCursor::Right, MoveAnchor, n)\<close>: up to \<open>n\<close> steps
  to the right, each to where the layout leads; the loop ends at the first step that does
  not move the cursor.
\<close>

fun moveRight :: "(qstring \<Rightarrow> nat \<Rightarrow> nat) \<Rightarrow> qstring \<Rightarrow> nat \<Rightarrow> nat \<Rightarrow> nat" where
  "moveRight rightCursorPosition cs p 0 = p"
| "moveRight rightCursorPosition cs p (Suc n) =
     (let p' = rightCursorPosition cs p
      in if p' = p then p else moveRight rightCursorPosition cs p' n)"

definition cursor_moveRight ::
  "(qstring \<Rightarrow> nat \<Rightarrow> nat) \<Rightarrow> qstring \<Rightarrow> QTextCursor \<Rightarrow> nat \<Rightarrow> QTextCursor" where
  "cursor_moveRight rightCursorPosition cs cur n =
     (let p = moveRight rightCursorPosition cs (cur_position cur) n
      in \<lparr>cur_anchor = p, cur_position = p\<rparr>)"

text \<open>
  \<open>QTextCursor::selectedText()\<close>: the characters of the buffer between anchor and
  position, block separators included as U+2029.
\<close>

definition cursor_selectedText :: "qstring \<Rightarrow> QTextCursor \<Rightarrow> qstring" where
  "cursor_selectedText cs cur =
     (let a = min (cur_anchor cur) (cur_position cur);
          b = max (cur_anchor cur) (cur_position cur)
      in take (b - a) (drop a cs))"

text \<open>
  \<open>QTextCursor::insertText(text)\<close> cuts the inserted text into blocks: a newline, a
  carriage return, U+2029 and the two frame characters each start a new block, and a
  carriage return followed by a newline counts once.
\<close>

definition startsBlock :: "qchar \<Rightarrow> bool" where
  "startsBlock ch \<longleftrightarrow>
     ch = LF \<or> ch = ParagraphSeparator \<or> ch = QTextBeginningOfFrame \<or> ch = QTextEndOfFrame \<or> ch = CR"

fun toBlocks :: "qstring \<Rightarrow> qstring" where
  "toBlocks [] = []"
| "toBlocks [c] = (if startsBlock c then [ParagraphSeparator] else [c])"
| "toBlocks (c # c' # cs) =
     (if c = CR \<and> c' = LF then ParagraphSeparator # toBlocks cs
      else if startsBlock c then ParagraphSeparator # toBlocks (c' # cs)
      else c # toBlocks (c' # cs))"

text \<open>
  The selected characters are removed, the new blocks are put in their place, and the
  cursor ends behind them with no selection.
\<close>

definition cursor_insertText :: "qstring \<Rightarrow> QTextCursor \<Rightarrow> qstring \<Rightarrow> qstring \<times> QTextCursor" where
  "cursor_insertText cs cur txt =
     (let a = min (cur_anchor cur) (cur_position cur);
          b = max (cur_anchor cur) (cur_position cur);
          ins = toBlocks txt;
          p = a + length ins
      in (take a cs @ ins @ drop b cs, \<lparr>cur_anchor = p, cur_position = p\<rparr>))"

text \<open>\<open>QTextCursor::clearSelection()\<close>: the anchor is moved to the position.\<close>

definition cursor_clearSelection :: "QTextCursor \<Rightarrow> QTextCursor" where
  "cursor_clearSelection cur = cur\<lparr>cur_anchor := cur_position cur\<rparr>"

text \<open>
  \<open>QPlainTextEdit::setPlainText(text)\<close>: the document is emptied, the text is inserted
  and the cursor is put at the start.
\<close>

definition setPlainText :: "qstring \<Rightarrow> QPlainTextEdit" where
  "setPlainText txt = \<lparr>doc_chars = toBlocks txt, doc_cursor = \<lparr>cur_anchor = 0, cur_position = 0\<rparr>\<rparr>"

text \<open>
  \<open>QPlainTextEdit::toPlainText()\<close>: the buffer with the block and line separators and
  the frame characters turned into newlines and the non-breaking space into a space.
\<close>

definition toPlainText :: "QPlainTextEdit \<Rightarrow> qstring" where
  "toPlainText w =
     map (\<lambda>c. if c = QTextBeginningOfFrame \<or> c = QTextEndOfFrame \<or> c = ParagraphSeparator
                 \<or> c = LineSeparator then LF
               else if c = Nbsp then Space else c)
       (doc_chars w)"


section \<open>TextDocument\<close>

datatype LineEnding = LFLineEnding | CRLFLineEnding | NativeLineEnding

record TextDocument =
  m_document :: QPlainTextEdit
  m_utf8Bom :: bool
  m_lineEnding :: LineEnding
  m_hasChanged :: bool
  m_errorString :: string

definition textCursor :: "'a TextDocument_scheme \<Rightarrow> QTextCursor" where
  "textCursor d = doc_cursor (m_document d)"

definition setTextCursor :: "'a TextDocument_scheme \<Rightarrow> QTextCursor \<Rightarrow> 'a TextDocument_scheme" where
  "setTextCursor d cur = d\<lparr>m_document := (m_document d)\<lparr>doc_cursor := cur\<rparr>\<rparr>"

definition chars :: "'a TextDocument_scheme \<Rightarrow> qstring" where
  "chars d = doc_chars (m_document d)"

text \<open>\<open>TextDocument::position()\<close>.\<close>

definition position :: "'a TextDocument_scheme \<Rightarrow> int" where
  "position d = int (cur_position (textCursor d))"

text \<open>
  \<open>TextDocument::convertPosition(pos, &line, &column)\<close>: line and column are both
  1-based; both are \<open>-1\<close> when the block found for \<open>pos\<close> is not valid.
\<close>

definition convertPosition :: "'a TextDocument_scheme \<Rightarrow> int32 \<Rightarrow> int32 \<times> int32" where
  "convertPosition d pos =
     (case findBlock (chars d) (sint pos) of
        None \<Rightarrow> (- 1, - 1)
      | Some (blockNumber, blockPosition) \<Rightarrow>
          (of_nat blockNumber + 1, pos - of_nat blockPosition + 1))"

text \<open>
  \<open>TextDocument::gotoLine(line, column)\<close>: the line is cut down to the number of blocks
  with \<open>qMin\<close>; when the block is valid the cursor is put at its start and, for a
  column above 1, moved \<open>column - 1\<close> steps to the right. The widget's layout is the
  first argument. A \<open>QTextDocument\<close> holds fewer than \<open>2^31 - 1\<close> characters, so
  that the number of its blocks is an \<open>int\<close>.
\<close>

definition gotoLine ::
  "(qstring \<Rightarrow> nat \<Rightarrow> nat) \<Rightarrow> 'a TextDocument_scheme \<Rightarrow> int32 \<Rightarrow> int32
     \<Rightarrow> 'a TextDocument_scheme" where
  "gotoLine rightCursorPosition d line column0 =
     (let column = column0 - 1;
          blockCnt = (of_nat (blockCount (chars d)) :: int32);
          blockNumber = (if line <s blockCnt then line else blockCnt) - 1
      in case findBlockByNumber (chars d) (sint blockNumber) of
           None \<Rightarrow> d
         | Some blockPosition \<Rightarrow>
             (let cursor = \<lparr>cur_anchor = blockPosition, cur_position = blockPosition\<rparr>;
                  cursor' = (if 0 <s column
                             then cursor_moveRight rightCursorPosition (chars d) cursor
                                    (nat (sint column))
                             else cursor)
              in setTextCursor d cursor'))"

text \<open>
  \<open>TextDocument::selectedText()\<close>: the cursor's selected text with \<open>QChar(8233)\<close>
  replaced by a newline.
\<close>

definition selectedText :: "'a TextDocument_scheme \<Rightarrow> qstring" where
  "selectedText d =
     QString_replace ParagraphSeparator [LF] (cursor_selectedText (chars d) (textCursor d))"

text \<open>\<open>TextDocument::text()\<close>.\<close>

definition text_of :: "'a TextDocument_scheme \<Rightarrow> qstring" where
  "text_of d = toPlainText (m_document d)"

text \<open>\<open>TextDocument::setText(newText)\<close>.\<close>

definition setText :: "'a TextDocument_scheme \<Rightarrow> qstring \<Rightarrow> 'a TextDocument_scheme" where
  "setText d newText = d\<lparr>m_hasChanged := True, m_document := setPlainText newText\<rparr>"

text \<open>\<open>TextDocument::setLineEnding(newLineEnding)\<close>.\<close>

definition setLineEnding :: "'a TextDocument_scheme \<Rightarrow> LineEnding \<Rightarrow> 'a TextDocument_scheme" where
  "setLineEnding d newLineEnding =
     (if m_lineEnding d = newLineEnding then d else d\<lparr>m_lineEnding := newLineEnding\<rparr>)"




text \<open>\<open>TextDocument::setPosition(newPosition)\<close>.\<close>

definition setPosition :: "'a TextDocument_scheme \<Rightarrow> int \<Rightarrow> 'a TextDocument_scheme" where
  "setPosition d newPosition =
     (if position d = newPosition then d
      else setTextCursor d (cursor_setPosition (chars d) (textCursor d) newPosition MoveAnchor))"

text \<open>\<open>TextDocument::unselect()\<close>.\<close>

definition unselect :: "'a TextDocument_scheme \<Rightarrow> 'a TextDocument_scheme" where
  "unselect d = setTextCursor d (cursor_clearSelection (textCursor d))"

text \<open>
  \<open>TextDocument::replace(length, text)\<close>: \<open>length\<close> characters from the cursor's
  position on are selected and replaced by the text.
\<close>

definition TextDocument_replace ::
  "'a TextDocument_scheme \<Rightarrow> int \<Rightarrow> qstring \<Rightarrow> 'a TextDocument_scheme" where
  "TextDocument_replace d len txt =
     (let cursor = textCursor d;
          cursor1 = cursor_setPosition (chars d) cursor (int (cur_position cursor) + len) KeepAnchor;
          (cs', cursor2) = cursor_insertText (chars d) cursor1 txt
      in d\<lparr>m_document := \<lparr>doc_chars = cs', doc_cursor = cursor2\<rparr>\<rparr>)"

section \<open>LspDocument\<close>

text \<open>
  \<open>lspdocument.h\<close> declares the class: it derives from \<open>TextDocument\<close> and holds
  the client \<open>m_lspClient\<close>, the cache \<open>m_cache\<close> and the counter
  \<open>int m_revision = 0\<close>; \<open>changeContent(position, charsRemoved, charsAdded)\<close>,
  \<open>deleteSymbol(symbol)\<close>, \<open>didClose()\<close> and the rest are declared there, and their
  bodies are not among the sources. The counter is a 32-bit signed integer: it is a
  \<open>32 word\<close> read with \<open>sint\<close>, and its increment at the largest value, which C++
  leaves undefined, is two's complement wrap-around.
\<close>

text \<open>Modelled from the spec: the kinds of error of its section 7; no source defines them.\<close>

datatype error = OutOfRange | QuerySyntaxError | AnalysisUnavailable | StaleResult

text \<open>
  Modelled from the spec: the request kinds of its section 6 and the states of a request
  of its section 4.4; the client's code is not among the sources.
\<close>

datatype RequestKind = Definition | References | Hover | DocumentSymbols

datatype RequestState = Created | Sent | Resolved | Cancelled | Stale

text \<open>
  Modelled from the spec: a pending request carries its kind, the revision of the buffer
  when it was issued, and its position (section 3); its state is kept with it.
\<close>

record PendingRequest =
  req_kind :: RequestKind
  requestRevision :: "32 word"
  req_position :: int
  req_state :: RequestState

text \<open>
  Modelled from the spec: a cached result is a value with the revision it was computed
  against (section 3); \<open>LspCache\<close> is only named in the sources.
\<close>

record CachedResult =
  cached_kind :: RequestKind
  cached_position :: int
  cached_value :: qstring
  sourceRevision :: "32 word"

text \<open>
  Modelled from the spec: a range is a start and an end offset, an edit delta a start
  offset with the numbers of characters removed and added (section 3).
\<close>

record TextRange =
  startOffset :: int
  endOffset :: int

record EditDelta =
  delta_startOffset :: int
  charsRemoved :: int
  charsAdded :: int

text \<open>
  Modelled from the spec: a symbol has a name, a kind, its range, the range of its name
  and its parent as an index into the list of symbols (sections 3 and 9); \<open>symbol.h\<close>
  is not among the sources.
\<close>

datatype SymbolKind = FunctionSymbol | ClassSymbol | FieldSymbol | OtherSymbol

record Symbol =
  sym_name :: qstring
  sym_kind :: SymbolKind
  sym_range :: TextRange
  sym_selectionRange :: TextRange
  sym_parent :: "nat option"

text \<open>
  Modelled from the spec: the bridge to the analysis process keeps the requests by their
  id; \<open>delivered\<close> records, in order, what was handed to the callers.
\<close>

record AnalysisBridge =
  requests :: "nat \<rightharpoonup> PendingRequest"
  nextId :: nat
  delivered :: "(nat \<times> qstring) list"

text \<open>The fields \<open>lspdocument.h\<close> declares, on top of those of \<open>TextDocument\<close>.\<close>

record LspDocument = TextDocument +
  m_lspClient :: AnalysisBridge
  m_cache :: "CachedResult list"
  m_revision :: "32 word"

text \<open>
  Modelled from the spec: \<open>LspDocument::changeContent\<close>, whose body is missing. Every
  mutation increments the revision once (section 4.1) and invalidates every cached result
  whose revision differs from the new one (section 4.5).
\<close>

definition changeContent :: "LspDocument \<Rightarrow> int \<Rightarrow> int \<Rightarrow> int \<Rightarrow> LspDocument" where
  "changeContent d pos removed added =
     (let revision = m_revision d + 1
      in d\<lparr>m_cache := filter (\<lambda>c. sourceRevision c = revision) (m_cache d),
            m_revision := revision\<rparr>)"

text \<open>
  Modelled from the spec: the buffer's \<open>replace(range, text)\<close> of section 4.1, which no
  source defines. A range outside the buffer is refused with \<open>OutOfRange\<close> and nothing
  changes; otherwise the range is replaced with the source's \<open>unselect\<close>,
  \<open>setPosition\<close> and \<open>replace(length, text)\<close>, the change is notified to
  \<open>changeContent\<close>, and the edit delta is returned.
\<close>

definition TextBuffer_replace ::
  "LspDocument \<Rightarrow> TextRange \<Rightarrow> qstring \<Rightarrow> error + LspDocument \<times> EditDelta" where
  "TextBuffer_replace d r txt =
     (if startOffset r < 0 \<or> endOffset r < startOffset r \<or> int (length (chars d)) < endOffset r
      then Inl OutOfRange
      else
        let d1 = TextDocument_replace (setPosition (unselect d) (startOffset r))
                   (endOffset r - startOffset r) txt;
            delta = \<lparr>delta_startOffset = startOffset r,
                     charsRemoved = endOffset r - startOffset r,
                     charsAdded = int (length (toBlocks txt))\<rparr>
        in Inr (changeContent d1 (delta_startOffset delta) (charsRemoved delta) (charsAdded delta),
                delta))"

text \<open>
  Modelled from the spec: \<open>LspDocument::deleteSymbol\<close>, whose body is missing. It
  removes the symbol's range from the buffer with \<open>replace\<close> (section 4.3).
\<close>

definition deleteSymbol :: "LspDocument \<Rightarrow> Symbol \<Rightarrow> error + LspDocument" where
  "deleteSymbol d symbol =
     (case TextBuffer_replace d (sym_range symbol) [] of
        Inl e \<Rightarrow> Inl e
      | Inr (d', delta) \<Rightarrow> Inr d')"

text \<open>
  Modelled from the spec: issuing a request (sections 4.4 and 5). Starting a new request
  cancels the outstanding requests of the same kind; the bridge then takes the next id,
  snapshots the buffer's revision as the request's revision, and sends the request.
\<close>

definition cancelKind :: "RequestKind \<Rightarrow> PendingRequest \<Rightarrow> PendingRequest" where
  "cancelKind kind request =
     (if req_state request = Sent \<and> req_kind request = kind
      then request\<lparr>req_state := Cancelled\<rparr> else request)"

definition issueRequest :: "LspDocument \<Rightarrow> RequestKind \<Rightarrow> int \<Rightarrow> nat \<times> LspDocument" where
  "issueRequest d kind pos =
     (let bridge = m_lspClient d;
          rid = nextId bridge;
          others = (\<lambda>i. map_option (cancelKind kind) (requests bridge i));
          request = \<lparr>req_kind = kind, requestRevision = m_revision d, req_position = pos,
                      req_state = Sent\<rparr>
      in (rid, d\<lparr>m_lspClient :=
                    bridge\<lparr>requests := others(rid \<mapsto> request), nextId := Suc rid\<rparr>\<rparr>))"

text \<open>
  Modelled from the spec: the arrival of a response (section 4.4). A response to a
  request that is not outstanding has no effect. When the buffer's revision is no longer
  the request's, the request becomes \<open>Stale\<close> and the response is dropped; otherwise
  the request becomes \<open>Resolved\<close>, the response is delivered to the caller and written
  into the cache under the request's revision.
\<close>

definition onResponse :: "LspDocument \<Rightarrow> nat \<Rightarrow> qstring \<Rightarrow> LspDocument" where
  "onResponse d rid payload =
     (let bridge = m_lspClient d
      in case requests bridge rid of
           None \<Rightarrow> d
         | Some request \<Rightarrow>
             if req_state request \<noteq> Sent then d
             else if m_revision d \<noteq> requestRevision request
             then d\<lparr>m_lspClient :=
                      bridge\<lparr>requests := (requests bridge)(rid \<mapsto> request\<lparr>req_state := Stale\<rparr>)\<rparr>\<rparr>
             else d\<lparr>m_lspClient :=
                      bridge\<lparr>requests := (requests bridge)(rid \<mapsto> request\<lparr>req_state := Resolved\<rparr>),
                             delivered := delivered bridge @ [(rid, payload)]\<rparr>,
                    m_cache :=
                      m_cache d @ [\<lparr>cached_kind = req_kind request,
                                    cached_position = req_position request,
                                    cached_value = payload,
                                    sourceRevision = requestRevision request\<rparr>]\<rparr>)"

text \<open>
  Modelled from the spec: \<open>LspDocument::didClose\<close>, whose body is missing. Closing the
  document cancels all its outstanding requests (section 4.4).
\<close>

definition didClose :: "LspDocument \<Rightarrow> LspDocument" where
  "didClose d =
     (let bridge = m_lspClient d
      in d\<lparr>m_lspClient :=
             bridge\<lparr>requests :=
                      (\<lambda>rid. map_option
                                (\<lambda>request. if req_state request = Sent
                                            then request\<lparr>req_state := Cancelled\<rparr>
                                            else request)
                                (requests bridge rid))\<rparr>\<rparr>)"

text \<open>
  What happens to an open document, one event at a time: a request is issued, an edit is
  notified, a response arrives, the document is closed.
\<close>

datatype event = Issue RequestKind int | Edit int int int | Response nat qstring | Close

fun step :: "LspDocument \<Rightarrow> event \<Rightarrow> LspDocument" where
  "step d (Issue kind pos) = snd (issueRequest d kind pos)"
| "step d (Edit pos removed added) = changeContent d pos removed added"
| "step d (Response rid payload) = onResponse d rid payload"
| "step d Close = didClose d"

definition run :: "LspDocument \<Rightarrow> event list \<Rightarrow> LspDocument" where
  "run d es = foldl step d es"

fun isEdit :: "event \<Rightarrow> bool" where
  "isEdit (Edit pos removed added) = True"
| "isEdit e = False"

definition edits :: "event list \<Rightarrow> nat" where
  "edits es = length (filter isEdit es)"

text \<open>
  Modelled from the spec: the events that end a request before its response arrives:
  closing the document and a new request of the same kind cancel it (sections 4.4 and 5),
  and a response to it answers it.
\<close>

fun cancelsOrAnswers :: "RequestKind \<Rightarrow> nat \<Rightarrow> event \<Rightarrow> bool" where
  "cancelsOrAnswers kind rid Close = True"
| "cancelsOrAnswers kind rid (Issue kind' pos) = (kind' = kind)"
| "cancelsOrAnswers kind rid (Response rid' payload) = (rid' = rid)"
| "cancelsOrAnswers kind rid (Edit pos removed added) = False"

text \<open>Two records of one request: only the state may differ.\<close>

definition sameRequest :: "PendingRequest \<Rightarrow> PendingRequest \<Rightarrow> bool" where
  "sameRequest r r' \<longleftrightarrow>
     req_kind r' = req_kind r \<and> requestRevision r' = requestRevision r
     \<and> req_position r' = req_position r"

section \<open>The format of a file\<close>




section \<open>A sample document\<close>

text \<open>The two lines \<open>ab\<close> and \<open>cd\<close>, the cursor at the start.\<close>

definition exampleDocument :: TextDocument where
  "exampleDocument =
     \<lparr>m_document =
        \<lparr>doc_chars = [0x61, 0x62, ParagraphSeparator, 0x63, 0x64],
         doc_cursor = \<lparr>cur_anchor = 0, cur_position = 0\<rparr>\<rparr>,
      m_utf8Bom = False, m_lineEnding = NativeLineEnding, m_hasChanged = False,
      m_errorString = []\<rparr>"

text \<open>
  The layout of the samples: left-to-right text in which a high surrogate followed by a
  low surrogate is passed in one step and every other code unit in a step of its own; at
  the end of the document the cursor stays.
\<close>

definition isHighSurrogate :: "qchar \<Rightarrow> bool" where
  "isHighSurrogate c \<longleftrightarrow> 0xD800 \<le> c \<and> c \<le> 0xDBFF"

definition isLowSurrogate :: "qchar \<Rightarrow> bool" where
  "isLowSurrogate c \<longleftrightarrow> 0xDC00 \<le> c \<and> c \<le> 0xDFFF"

definition rightBySurrogatePairs :: "qstring \<Rightarrow> nat \<Rightarrow> nat" where
  "rightBySurrogatePairs cs p =
     (if length cs \<le> p then p
      else if Suc p < length cs \<and> isHighSurrogate (cs ! p) \<and> isLowSurrogate (cs ! Suc p)
      then p + 2
      else p + 1)"




text \<open>
  The sample document as an \<open>LspDocument\<close> at a given revision, with one cached hover
  result of that revision and no request; and a symbol for its second line.
\<close>

definition sampleLspDocument :: "32 word \<Rightarrow> LspDocument" where
  "sampleLspDocument revision =
     TextDocument.extend exampleDocument
       (LspDocument.fields \<lparr>requests = Map.empty, nextId = 0, delivered = []\<rparr>
          [\<lparr>cached_kind = Hover, cached_position = 4, cached_value = [0x69],
            sourceRevision = revision\<rparr>] revision)"

definition sampleSymbol :: Symbol where
  "sampleSymbol =
     \<lparr>sym_name = [0x63, 0x64], sym_kind = FieldSymbol,
      sym_range = \<lparr>startOffset = 3, endOffset = 5\<rparr>,
      sym_selectionRange = \<lparr>startOffset = 3, endOffset = 5\<rparr>,
      sym_parent = None\<rparr>"

section \<open>Properties\<close>

subsection \<open>Selected text\<close>

lemma QString_replace_single:
  "QString_replace a [b] s = map (\<lambda>c. if c = a then b else c) s"
  by (induction s) (simp_all add: QString_replace_def)

text \<open>
  C10. For every document and every state of its cursor, \<open>selectedText\<close> is the
  cursor's selection with each U+2029 turned into a newline, and the result holds no
  U+2029.
\<close>

theorem selectedText_no_paragraph_separator:
  "selectedText d =
     map (\<lambda>c. if c = ParagraphSeparator then LF else c)
       (cursor_selectedText (chars d) (textCursor d))
   \<and> ParagraphSeparator \<notin> set (selectedText d)"
  by (auto simp: selectedText_def QString_replace_single ParagraphSeparator_def LF_def)

subsection \<open>Offsets and positions\<close>











lemma blockStart_valid:
  "n < blockCount cs \<Longrightarrow> \<exists>p. blockStart cs n = Some p \<and> p \<le> length cs"
proof (induction cs n rule: blockStart.induct)
  case (1 cs)
  then show ?case by simp
next
  case (2 n)
  then show ?case by (simp add: blockCount_def)
next
  case (3 c cs n)
  then show ?case by (auto simp: blockCount_def split: if_splits)
qed


lemma chars_exampleDocument:
  "chars exampleDocument = [0x61, 0x62, ParagraphSeparator, 0x63, 0x64]"
  by (simp add: chars_def exampleDocument_def)


lemma sint_of_nat_int32:
  "n < 2147483648 \<Longrightarrow> sint (of_nat n :: int32) = int n"
  by (simp add: signed_of_nat signed_take_bit_int_eq_self)



lemma blockCount_le: "blockCount cs \<le> Suc (length cs)"
  by (simp add: blockCount_def)












subsection \<open>Inputs outside the buffer\<close>

lemma sint_minus_one_int32:
  "- 2147483648 < sint (w :: int32) \<Longrightarrow> sint (w - 1) = sint w - 1"
proof -
  assume a: "- 2147483648 < sint w"
  have "sint (w - 1) = signed_take_bit 31 (sint w - 1)" by (simp add: sint_word_ariths)
  also have "\<dots> = sint w - 1"
    using a sint_lt [of w] by (intro signed_take_bit_int_eq_self) simp_all
  finally show ?thesis .
qed

lemma sint_blockCount:
  "length cs < 2147483647 \<Longrightarrow> sint (of_nat (blockCount cs) :: int32) = int (blockCount cs)"
  using blockCount_le [of cs] by (intro sint_of_nat_int32) simp

lemma convertPosition_outside:
  "sint pos < 0 \<or> int (length (chars d)) < sint pos \<Longrightarrow> convertPosition d pos = (- 1, - 1)"
  by (auto simp: convertPosition_def findBlock_def)

lemma gotoLine_below:
  assumes len: "length (chars d) < 2147483647"
    and lo: "- 2147483648 < sint line" and hi: "sint line < 1"
  shows "gotoLine right d line column = d"
proof -
  define bcw :: int32 where "bcw = of_nat (blockCount (chars d))"
  have s_bc: "sint bcw = int (blockCount (chars d))"
    unfolding bcw_def using len by (rule sint_blockCount)
  have "1 \<le> sint bcw" by (simp add: s_bc blockCount_def)
  then have less: "line <s bcw" using hi by (simp add: word_sless_alt)
  have "sint (line - 1) < 0" using sint_minus_one_int32 [OF lo] hi by simp
  then have "findBlockByNumber (chars d) (sint (line - 1)) = None"
    by (simp add: findBlockByNumber_def)
  then show ?thesis
    unfolding gotoLine_def Let_def bcw_def [symmetric] by (simp add: less)
qed

lemma gotoLine_above:
  assumes len: "length (chars d) < 2147483647"
    and above: "int (blockCount (chars d)) < sint line"
  shows "gotoLine right d line column = gotoLine right d (of_nat (blockCount (chars d))) column"
proof -
  define bcw :: int32 where "bcw = of_nat (blockCount (chars d))"
  have s_bc: "sint bcw = int (blockCount (chars d))"
    unfolding bcw_def using len by (rule sint_blockCount)
  have "\<not> line <s bcw" using above by (simp add: word_sless_alt s_bc)
  then show ?thesis
    unfolding gotoLine_def Let_def bcw_def [symmetric] by simp
qed

lemma gotoLine_column_below:
  assumes lo: "- 2147483648 < sint column" and hi: "sint column < 1"
  shows "gotoLine right d line column = gotoLine right d line 1"
proof -
  have "sint (column - 1) < 0" using sint_minus_one_int32 [OF lo] hi by simp
  then have "\<not> 0 <s column - 1" by (simp add: word_sless_alt)
  then show ?thesis
    by (simp add: gotoLine_def Let_def split: option.splits)
qed

lemma gotoLine_lands:
  assumes len: "length (chars d) < 2147483647"
    and line: "1 \<le> sint line" and col: "- 2147483648 < sint column"
  shows "\<exists>start. findBlockByNumber (chars d) (min (sint line) (int (blockCount (chars d))) - 1)
                    = Some start
           \<and> position (gotoLine right d line column)
               = int (moveRight right (chars d) start (nat (sint column - 1)))"
proof -
  define bcw :: int32 where "bcw = of_nat (blockCount (chars d))"
  define bnw :: int32 where "bnw = (if line <s bcw then line else bcw) - 1"
  let ?n = "min (sint line) (int (blockCount (chars d))) - 1"
  have s_bc: "sint bcw = int (blockCount (chars d))"
    unfolding bcw_def using len by (rule sint_blockCount)
  have bc1: "1 \<le> sint bcw" by (simp add: s_bc blockCount_def)
  have s_min: "sint (if line <s bcw then line else bcw) = min (sint line) (sint bcw)"
    by (simp add: word_sless_alt min_def)
  have "- 2147483648 < sint (if line <s bcw then line else bcw)"
    using line bc1 by (simp add: s_min)
  from sint_minus_one_int32 [OF this]
  have s_bn: "sint bnw = ?n" by (simp add: bnw_def s_min s_bc)
  have n0: "0 \<le> ?n" using line by (simp add: blockCount_def)
  have "nat ?n < blockCount (chars d)" using line by (simp add: blockCount_def)
  from blockStart_valid [OF this] obtain start
    where st: "blockStart (chars d) (nat ?n) = Some start"
    by blast
  have fb: "findBlockByNumber (chars d) ?n = Some start"
    using n0 st by (simp add: findBlockByNumber_def)
  have s_col: "sint (column - 1) = sint column - 1" using col by (rule sint_minus_one_int32)
  have "position (gotoLine right d line column)
          = int (moveRight right (chars d) start (nat (sint column - 1)))"
    unfolding gotoLine_def Let_def bcw_def [symmetric] bnw_def [symmetric] s_bn fb
    by (simp add: word_sless_alt s_col position_def textCursor_def setTextCursor_def
        cursor_moveRight_def Let_def)
  with fb show ?thesis by blast
qed

text \<open>
  C4, as the code has it, in a document of fewer than \<open>2^31 - 1\<close> characters. An
  offset outside the buffer makes \<open>convertPosition\<close> return line \<open>-1\<close> and column
  \<open>-1\<close>. \<open>gotoLine\<close> with a line from -2147483647 to 0 changes nothing; a line
  above the number of blocks is cut down to the last line; a column from -2147483647 to 0
  counts as column 1; from line 1 on the block is always found, and the cursor is put at
  its start and moved \<open>column - 1\<close> steps to the right, where the layout leads.
  Nothing is stated for the line or column -2147483648, where \<open>- 1\<close> overflows.
\<close>

theorem out_of_range_behaviour:
  assumes "length (chars d) < 2147483647"
  shows "(sint pos < 0 \<or> int (length (chars d)) < sint pos \<longrightarrow>
            convertPosition d pos = (- 1, - 1))
   \<and> (- 2147483648 < sint line \<and> sint line < 1 \<longrightarrow> gotoLine right d line column = d)
   \<and> (int (blockCount (chars d)) < sint line \<longrightarrow>
        gotoLine right d line column = gotoLine right d (of_nat (blockCount (chars d))) column)
   \<and> (- 2147483648 < sint column \<and> sint column < 1 \<longrightarrow>
        gotoLine right d line column = gotoLine right d line 1)
   \<and> (1 \<le> sint line \<and> - 2147483648 < sint column \<longrightarrow>
        (\<exists>start. findBlockByNumber (chars d) (min (sint line) (int (blockCount (chars d))) - 1)
                    = Some start
           \<and> position (gotoLine right d line column)
               = int (moveRight right (chars d) start (nat (sint column - 1)))))"
  using convertPosition_outside [of pos d] gotoLine_below [OF assms, of line right column]
    gotoLine_above [OF assms, of line right column] gotoLine_column_below [of column right d line]
    gotoLine_lands [OF assms, of line column right]
  by blast


lemma blockCount_exampleDocument: "(of_nat (blockCount (chars exampleDocument)) :: int32) = 2"
  by (simp add: chars_exampleDocument blockCount_def ParagraphSeparator_def)

lemma findBlockByNumber_exampleDocument: "findBlockByNumber (chars exampleDocument) 1 = Some 3"
  by (simp add: chars_exampleDocument findBlockByNumber_def ParagraphSeparator_def)

lemma gotoLine_exampleDocument_7_1:
  "gotoLine right exampleDocument 7 1
     = setTextCursor exampleDocument \<lparr>cur_anchor = 3, cur_position = 3\<rparr>"
  unfolding gotoLine_def Let_def blockCount_exampleDocument
  by (simp add: word_sless_alt findBlockByNumber_exampleDocument)

lemma gotoLine_exampleDocument_2_1:
  "gotoLine right exampleDocument 2 1
     = setTextCursor exampleDocument \<lparr>cur_anchor = 3, cur_position = 3\<rparr>"
  unfolding gotoLine_def Let_def blockCount_exampleDocument
  by (simp add: word_sless_alt findBlockByNumber_exampleDocument)

text \<open>
  The document holds two lines. Asked for line 7, \<open>gotoLine\<close> moves the cursor from the
  start of the document to the start of line 2, exactly as it does for line 2.
\<close>

theorem gotoLine_clamps_line_counterexample:
  "int (blockCount (chars exampleDocument)) < sint (7 :: int32)
   \<and> gotoLine rightBySurrogatePairs exampleDocument 7 1 \<noteq> exampleDocument
   \<and> position (gotoLine rightBySurrogatePairs exampleDocument 7 1) = 3
   \<and> gotoLine rightBySurrogatePairs exampleDocument 7 1
       = gotoLine rightBySurrogatePairs exampleDocument 2 1"
proof -
  have "setTextCursor exampleDocument \<lparr>cur_anchor = 3, cur_position = 3\<rparr> \<noteq> exampleDocument"
    by (simp add: setTextCursor_def exampleDocument_def)
  moreover have "position (setTextCursor exampleDocument \<lparr>cur_anchor = 3, cur_position = 3\<rparr>) = 3"
    by (simp add: position_def textCursor_def setTextCursor_def)
  moreover have "int (blockCount (chars exampleDocument)) < sint (7 :: int32)"
    by (simp add: chars_exampleDocument blockCount_def ParagraphSeparator_def)
  ultimately show ?thesis
    by (simp add: gotoLine_exampleDocument_7_1 gotoLine_exampleDocument_2_1)
qed

lemma moveRight_exampleDocument:
  "moveRight rightBySurrogatePairs (chars exampleDocument) 3 3 = 5"
proof -
  have three: "(3 :: nat) = Suc (Suc (Suc 0))" by simp
  have "moveRight rightBySurrogatePairs [0x61, 0x62, ParagraphSeparator, 0x63, 0x64] 3
          (Suc (Suc (Suc 0))) = 5"
    by (simp add: rightBySurrogatePairs_def isHighSurrogate_def Let_def)
  then show ?thesis by (simp add: chars_exampleDocument three)
qed

theorem out_of_range_behaviour_witness:
  "length (chars exampleDocument) < 2147483647
   \<and> int (length (chars exampleDocument)) < sint (9 :: int32)
   \<and> convertPosition exampleDocument 9 = (- 1, - 1)
   \<and> - 2147483648 < sint (0 :: int32) \<and> sint (0 :: int32) < 1
   \<and> gotoLine rightBySurrogatePairs exampleDocument 0 3 = exampleDocument
   \<and> gotoLine rightBySurrogatePairs exampleDocument 2 0
       = gotoLine rightBySurrogatePairs exampleDocument 2 1
   \<and> int (blockCount (chars exampleDocument)) < sint (7 :: int32)
   \<and> gotoLine rightBySurrogatePairs exampleDocument 7 4
       = gotoLine rightBySurrogatePairs exampleDocument 2 4
   \<and> position (gotoLine rightBySurrogatePairs exampleDocument 7 4) = 5"
proof -
  have len: "length (chars exampleDocument) < 2147483647"
    by (simp add: chars_exampleDocument)
  have l5: "int (length (chars exampleDocument)) = 5"
    by (simp add: chars_exampleDocument)
  have bc: "int (blockCount (chars exampleDocument)) = 2"
    by (simp add: chars_exampleDocument blockCount_def ParagraphSeparator_def)
  note bcw = blockCount_exampleDocument and fb = findBlockByNumber_exampleDocument
  have low: "convertPosition exampleDocument 9 = (- 1, - 1)
      \<and> gotoLine rightBySurrogatePairs exampleDocument 0 3 = exampleDocument"
    using out_of_range_behaviour [OF len, where pos = 9 and line = 0 and column = 3
        and right = rightBySurrogatePairs]
    by (simp add: l5)
  have col: "gotoLine rightBySurrogatePairs exampleDocument 2 0
      = gotoLine rightBySurrogatePairs exampleDocument 2 1"
    using out_of_range_behaviour [OF len, where pos = 9 and line = 2 and column = 0
        and right = rightBySurrogatePairs]
    by simp
  have high: "gotoLine rightBySurrogatePairs exampleDocument 7 4
        = gotoLine rightBySurrogatePairs exampleDocument 2 4
      \<and> position (gotoLine rightBySurrogatePairs exampleDocument 7 4) = 5"
    using out_of_range_behaviour [OF len, where pos = 9 and line = 7 and column = 4
        and right = rightBySurrogatePairs]
    by (auto simp: bc bcw fb moveRight_exampleDocument)
  have g: "int (length (chars exampleDocument)) < sint (9 :: int32)"
    and h: "- 2147483648 < sint (0 :: int32)" "sint (0 :: int32) < 1"
    and i: "int (blockCount (chars exampleDocument)) < sint (7 :: int32)"
    by (simp_all add: l5 bc)
  from len low col high g h i show ?thesis by blast
qed

subsection \<open>Loading and saving\<close>


lemma m_utf8Bom_setLineEnding [simp]: "m_utf8Bom (setLineEnding d e) = m_utf8Bom d"
  by (simp add: setLineEnding_def)

lemma m_lineEnding_setLineEnding [simp]: "m_lineEnding (setLineEnding d e) = e"
  by (simp add: setLineEnding_def)









lemma text_of_setText [simp]: "text_of (setText d s) = toPlainText (setPlainText s)"
  by (simp add: text_of_def setText_def)

lemma format_setText [simp]:
  "m_utf8Bom (setText d s) = m_utf8Bom d" "m_lineEnding (setText d s) = m_lineEnding d"
  by (simp_all add: setText_def)










subsection \<open>Replacing a range\<close>

lemma chars_changeContent [simp]: "chars (changeContent d p r a) = chars d"
  by (simp add: changeContent_def chars_def Let_def)

lemma m_revision_changeContent [simp]: "m_revision (changeContent d p r a) = m_revision d + 1"
  by (simp add: changeContent_def Let_def)

lemma m_cache_changeContent [simp]:
  "m_cache (changeContent d p r a) = filter (\<lambda>c. sourceRevision c = m_revision d + 1) (m_cache d)"
  by (simp add: changeContent_def Let_def)

lemma m_lspClient_changeContent [simp]: "m_lspClient (changeContent d p r a) = m_lspClient d"
  by (simp add: changeContent_def Let_def)

lemma cursor_after_setPosition_unselect:
  assumes "0 \<le> s" "s \<le> int (length (chars d))"
  shows "textCursor (setPosition (unselect d) s) = \<lparr>cur_anchor = nat s, cur_position = nat s\<rparr>"
    and "chars (setPosition (unselect d) s) = chars d"
  using assms
  by (auto simp: setPosition_def unselect_def position_def textCursor_def setTextCursor_def
      cursor_clearSelection_def cursor_setPosition_def chars_def)

lemma more_setTextCursor [simp]: "TextDocument.more (setTextCursor d c) = TextDocument.more d"
  by (simp add: setTextCursor_def)

lemma more_setPosition [simp]: "TextDocument.more (setPosition d p) = TextDocument.more d"
  by (simp add: setPosition_def)

lemma more_unselect [simp]: "TextDocument.more (unselect d) = TextDocument.more d"
  by (simp add: unselect_def)

lemma more_TextDocument_replace [simp]:
  "TextDocument.more (TextDocument_replace d len t) = TextDocument.more d"
  by (simp add: TextDocument_replace_def Let_def split_beta)

lemma chars_TextDocument_replace:
  assumes "textCursor d = \<lparr>cur_anchor = nat s, cur_position = nat s\<rparr>"
    and "0 \<le> s" "s \<le> e" "e \<le> int (length (chars d))"
  shows "chars (TextDocument_replace d (e - s) t) = take (nat s) (chars d) @ toBlocks t @ drop (nat e) (chars d)"
  using assms
  by (simp add: TextDocument_replace_def Let_def cursor_setPosition_def cursor_insertText_def
      chars_def nat_add_distrib)

lemma lsp_fields_setTextCursor [simp]:
  "m_revision (setTextCursor d c) = m_revision d"
  "m_cache (setTextCursor d c) = m_cache d"
  "m_lspClient (setTextCursor d c) = m_lspClient d"
  by (simp_all add: setTextCursor_def)

lemma lsp_fields_setPosition [simp]:
  "m_revision (setPosition d p) = m_revision d"
  "m_cache (setPosition d p) = m_cache d"
  "m_lspClient (setPosition d p) = m_lspClient d"
  by (simp_all add: setPosition_def)

lemma lsp_fields_unselect [simp]:
  "m_revision (unselect d) = m_revision d"
  "m_cache (unselect d) = m_cache d"
  "m_lspClient (unselect d) = m_lspClient d"
  by (simp_all add: unselect_def)

lemma lsp_fields_TextDocument_replace [simp]:
  "m_revision (TextDocument_replace d len t) = m_revision d"
  "m_cache (TextDocument_replace d len t) = m_cache d"
  "m_lspClient (TextDocument_replace d len t) = m_lspClient d"
  by (simp_all add: TextDocument_replace_def Let_def split_beta)

lemma TextBuffer_replace_valid:
  assumes "0 \<le> startOffset r" "startOffset r \<le> endOffset r"
    "endOffset r \<le> int (length (chars d))"
  shows "\<exists>d'. TextBuffer_replace d r t
            = Inr (d', \<lparr>delta_startOffset = startOffset r,
                        charsRemoved = endOffset r - startOffset r,
                        charsAdded = int (length (toBlocks t))\<rparr>)
          \<and> chars d' = take (nat (startOffset r)) (chars d) @ toBlocks t
                          @ drop (nat (endOffset r)) (chars d)
          \<and> m_revision d' = m_revision d + 1
          \<and> m_cache d' = filter (\<lambda>c. sourceRevision c = m_revision d + 1) (m_cache d)
          \<and> m_lspClient d' = m_lspClient d"
proof -
  let ?d0 = "setPosition (unselect d) (startOffset r)"
  have s: "startOffset r \<le> int (length (chars d))" using assms by linarith
  have cur: "textCursor ?d0 = \<lparr>cur_anchor = nat (startOffset r), cur_position = nat (startOffset r)\<rparr>"
    and cs: "chars ?d0 = chars d"
    using cursor_after_setPosition_unselect [OF assms(1) s] by simp_all
  have "chars (TextDocument_replace ?d0 (endOffset r - startOffset r) t)
          = take (nat (startOffset r)) (chars ?d0) @ toBlocks t @ drop (nat (endOffset r)) (chars ?d0)"
    using cur assms by (intro chars_TextDocument_replace) (simp_all add: cs)
  then show ?thesis
    using assms by (simp add: TextBuffer_replace_def Let_def cs)
qed

lemma chars_sampleLspDocument:
  "chars (sampleLspDocument v) = [0x61, 0x62, ParagraphSeparator, 0x63, 0x64]"
  by (simp add: sampleLspDocument_def TextDocument.extend_def exampleDocument_def chars_def)

lemma lsp_fields_sampleLspDocument:
  "m_revision (sampleLspDocument v) = v"
  "m_cache (sampleLspDocument v)
     = [\<lparr>cached_kind = Hover, cached_position = 4, cached_value = [0x69], sourceRevision = v\<rparr>]"
  "m_lspClient (sampleLspDocument v) = \<lparr>requests = Map.empty, nextId = 0, delivered = []\<rparr>"
  by (simp_all add: sampleLspDocument_def TextDocument.extend_def LspDocument.fields_def)

subsection \<open>Deleting a symbol\<close>

text \<open>
  C8. For every symbol whose range lies within the buffer, \<open>deleteSymbol\<close> succeeds;
  the buffer is the old one without the characters of the range, the revision is
  incremented, the cache is invalidated as for any other edit, and the document is the
  very one \<open>replace\<close> returns for that range and the empty text.
\<close>

theorem deleteSymbol_removes_range:
  assumes "0 \<le> startOffset (sym_range symbol)"
    and "startOffset (sym_range symbol) \<le> endOffset (sym_range symbol)"
    and "endOffset (sym_range symbol) \<le> int (length (chars d))"
  shows "case deleteSymbol d symbol of
           Inl e \<Rightarrow> False
         | Inr d' \<Rightarrow>
             chars d' = take (nat (startOffset (sym_range symbol))) (chars d)
                          @ drop (nat (endOffset (sym_range symbol))) (chars d)
             \<and> m_revision d' = m_revision d + 1
             \<and> m_cache d' = filter (\<lambda>c. sourceRevision c = m_revision d + 1) (m_cache d)
             \<and> (\<exists>delta. TextBuffer_replace d (sym_range symbol) [] = Inr (d', delta))"
proof -
  from TextBuffer_replace_valid [OF assms, of "[]"] obtain d' where
    "TextBuffer_replace d (sym_range symbol) []
       = Inr (d', \<lparr>delta_startOffset = startOffset (sym_range symbol),
                   charsRemoved = endOffset (sym_range symbol) - startOffset (sym_range symbol),
                   charsAdded = int (length (toBlocks []))\<rparr>)"
    and "chars d' = take (nat (startOffset (sym_range symbol))) (chars d) @ toBlocks []
                          @ drop (nat (endOffset (sym_range symbol))) (chars d)"
    and "m_revision d' = m_revision d + 1"
    and "m_cache d' = filter (\<lambda>c. sourceRevision c = m_revision d + 1) (m_cache d)"
    by blast
  then show ?thesis by (simp add: deleteSymbol_def)
qed

theorem deleteSymbol_removes_range_witness:
  "0 \<le> startOffset (sym_range sampleSymbol)
   \<and> startOffset (sym_range sampleSymbol) \<le> endOffset (sym_range sampleSymbol)
   \<and> endOffset (sym_range sampleSymbol) \<le> int (length (chars (sampleLspDocument 7)))
   \<and> (case deleteSymbol (sampleLspDocument 7) sampleSymbol of
         Inl e \<Rightarrow> False
       | Inr d' \<Rightarrow> chars d' = [0x61, 0x62, ParagraphSeparator] \<and> m_revision d' = 8
                   \<and> m_cache d' = [])"
proof -
  have h1: "0 \<le> startOffset (sym_range sampleSymbol)"
    and h2: "startOffset (sym_range sampleSymbol) \<le> endOffset (sym_range sampleSymbol)"
    and h3: "endOffset (sym_range sampleSymbol) \<le> int (length (chars (sampleLspDocument 7)))"
    by (simp_all add: sampleSymbol_def chars_sampleLspDocument)
  show ?thesis
    using deleteSymbol_removes_range [OF h1 h2 h3] h1 h2 h3
    by (auto simp: sampleSymbol_def chars_sampleLspDocument lsp_fields_sampleLspDocument
        split: sum.splits)
qed

subsection \<open>Responses and revisions\<close>

lemma step_request:
  assumes "requests (m_lspClient d) rid = Some r" and "rid < nextId (m_lspClient d)"
  shows "\<exists>r'. requests (m_lspClient (step d e)) rid = Some r'
           \<and> rid < nextId (m_lspClient (step d e))
           \<and> sameRequest r r'
           \<and> (req_state r \<noteq> Sent \<longrightarrow> req_state r' \<noteq> Sent)
           \<and> (cancelsOrAnswers (req_kind r) rid e \<longrightarrow> req_state r' \<noteq> Sent)
           \<and> (\<not> cancelsOrAnswers (req_kind r) rid e \<longrightarrow> req_state r' = req_state r)
           \<and> m_revision (step d e) = (if isEdit e then m_revision d + 1 else m_revision d)"
proof (cases e)
  case (Issue kind pos)
  then show ?thesis
    using assms by (auto simp: issueRequest_def Let_def cancelKind_def sameRequest_def)
next
  case (Edit pos removed added)
  then show ?thesis using assms by (simp add: changeContent_def Let_def sameRequest_def)
next
  case (Response i v)
  then show ?thesis
    using assms by (auto simp: onResponse_def Let_def sameRequest_def split: option.splits)
next
  case Close
  then show ?thesis using assms by (auto simp: didClose_def Let_def sameRequest_def)
qed

lemma run_Cons: "run d (e # es) = run (step d e) es"
  by (simp add: run_def)

lemma edits_Cons: "edits (e # es) = (if isEdit e then Suc (edits es) else edits es)"
  by (simp add: edits_def)

lemma run_request:
  assumes "requests (m_lspClient d) rid = Some r" and "rid < nextId (m_lspClient d)"
  shows "\<exists>r'. requests (m_lspClient (run d es)) rid = Some r'
           \<and> sameRequest r r'
           \<and> (req_state r \<noteq> Sent \<longrightarrow> req_state r' \<noteq> Sent)
           \<and> ((\<exists>e\<in>set es. cancelsOrAnswers (req_kind r) rid e) \<longrightarrow> req_state r' \<noteq> Sent)
           \<and> ((\<forall>e\<in>set es. \<not> cancelsOrAnswers (req_kind r) rid e) \<longrightarrow> req_state r' = req_state r)
           \<and> m_revision (run d es) = m_revision d + of_nat (edits es)"
  using assms
proof (induction es arbitrary: d r)
  case Nil
  then show ?case by (simp add: run_def edits_def sameRequest_def)
next
  case (Cons e es)
  from step_request [OF Cons.prems, of e] obtain r1 where
    r1: "requests (m_lspClient (step d e)) rid = Some r1"
    and n1: "rid < nextId (m_lspClient (step d e))"
    and same1: "sameRequest r r1"
    and keep1: "req_state r \<noteq> Sent \<longrightarrow> req_state r1 \<noteq> Sent"
    and hit1: "cancelsOrAnswers (req_kind r) rid e \<longrightarrow> req_state r1 \<noteq> Sent"
    and miss1: "\<not> cancelsOrAnswers (req_kind r) rid e \<longrightarrow> req_state r1 = req_state r"
    and rev1: "m_revision (step d e) = (if isEdit e then m_revision d + 1 else m_revision d)"
    by blast
  from Cons.IH [OF r1 n1] obtain r' where
    r': "requests (m_lspClient (run (step d e) es)) rid = Some r'"
    and same2: "sameRequest r1 r'"
    and keep2: "req_state r1 \<noteq> Sent \<longrightarrow> req_state r' \<noteq> Sent"
    and hit2: "(\<exists>e\<in>set es. cancelsOrAnswers (req_kind r1) rid e) \<longrightarrow> req_state r' \<noteq> Sent"
    and miss2: "(\<forall>e\<in>set es. \<not> cancelsOrAnswers (req_kind r1) rid e) \<longrightarrow> req_state r' = req_state r1"
    and rev2: "m_revision (run (step d e) es) = m_revision (step d e) + of_nat (edits es)"
    by blast
  have k: "req_kind r1 = req_kind r" using same1 by (simp add: sameRequest_def)
  have same: "sameRequest r r'" using same1 same2 by (simp add: sameRequest_def)
  have rev: "m_revision (run (step d e) es) = m_revision d + of_nat (edits (e # es))"
    by (simp add: rev2 rev1 edits_Cons)
  show ?case
    unfolding run_Cons
    using r' same keep1 keep2 hit1 hit2 miss1 miss2 rev
    by (auto simp: k)
qed

lemma onResponse_not_Sent:
  "requests (m_lspClient d) rid = Some r \<Longrightarrow> req_state r \<noteq> Sent \<Longrightarrow> onResponse d rid payload = d"
  by (simp add: onResponse_def Let_def)

lemma onResponse_stale:
  assumes "requests (m_lspClient d) rid = Some r" and "req_state r = Sent"
    and "m_revision d \<noteq> requestRevision r"
  shows "delivered (m_lspClient (onResponse d rid payload)) = delivered (m_lspClient d)"
    and "m_cache (onResponse d rid payload) = m_cache d"
    and "map_option req_state (requests (m_lspClient (onResponse d rid payload)) rid) = Some Stale"
  using assms by (simp_all add: onResponse_def Let_def)

lemma onResponse_fresh:
  assumes "requests (m_lspClient d) rid = Some r" and "req_state r = Sent"
    and "m_revision d = requestRevision r"
  shows "delivered (m_lspClient (onResponse d rid payload))
           = delivered (m_lspClient d) @ [(rid, payload)]"
    and "m_cache (onResponse d rid payload)
           = m_cache d @ [\<lparr>cached_kind = req_kind r, cached_position = req_position r,
                            cached_value = payload, sourceRevision = requestRevision r\<rparr>]"
    and "map_option req_state (requests (m_lspClient (onResponse d rid payload)) rid)
           = Some Resolved"
  using assms by (simp_all add: onResponse_def Let_def)

text \<open>
  C1, with cancellation. A request is issued at revision \<open>R\<close>, events happen, then
  its response arrives. When an event closed the document, started a new request of the
  same kind or already answered the request, the response has no effect. When one or more
  edits (fewer than \<open>2^32\<close>) were among the events, nothing is delivered and nothing is
  written into the cache; the request is \<open>Stale\<close> when nothing had ended it before.
  When nothing had ended it and no edit was among the events, the response is delivered
  and is cached under revision \<open>R\<close>, and the request is \<open>Resolved\<close>.
\<close>

theorem response_discarded_after_edit_delivered_otherwise:
  "case issueRequest d kind pos of
     (rid, d1) \<Rightarrow>
       let d2 = run d1 es; d3 = onResponse d2 rid payload
       in ((\<exists>e\<in>set es. cancelsOrAnswers kind rid e) \<longrightarrow> d3 = d2)
        \<and> (0 < edits es \<and> edits es < 4294967296 \<longrightarrow>
              delivered (m_lspClient d3) = delivered (m_lspClient d2)
              \<and> m_cache d3 = m_cache d2)
        \<and> ((\<forall>e\<in>set es. \<not> cancelsOrAnswers kind rid e) \<longrightarrow>
              (0 < edits es \<and> edits es < 4294967296 \<longrightarrow>
                 map_option req_state (requests (m_lspClient d3) rid) = Some Stale)
              \<and> (edits es = 0 \<longrightarrow>
                   delivered (m_lspClient d3) = delivered (m_lspClient d2) @ [(rid, payload)]
                   \<and> m_cache d3
                       = m_cache d2 @ [\<lparr>cached_kind = kind, cached_position = pos,
                                        cached_value = payload, sourceRevision = m_revision d\<rparr>]
                   \<and> map_option req_state (requests (m_lspClient d3) rid) = Some Resolved))"
proof -
  let ?rid = "nextId (m_lspClient d)"
  let ?r = "\<lparr>req_kind = kind, requestRevision = m_revision d, req_position = pos, req_state = Sent\<rparr>"
  obtain d1 where i: "issueRequest d kind pos = (?rid, d1)"
    by (simp add: issueRequest_def Let_def)
  then have r1: "requests (m_lspClient d1) ?rid = Some ?r" and n1: "?rid < nextId (m_lspClient d1)"
    and v1: "m_revision d1 = m_revision d"
    by (auto simp: issueRequest_def Let_def)
  from run_request [OF r1 n1, of es] obtain r' where
    r2: "requests (m_lspClient (run d1 es)) ?rid = Some r'"
    and same: "sameRequest ?r r'"
    and hit: "(\<exists>e\<in>set es. cancelsOrAnswers kind ?rid e) \<longrightarrow> req_state r' \<noteq> Sent"
    and miss: "(\<forall>e\<in>set es. \<not> cancelsOrAnswers kind ?rid e) \<longrightarrow> req_state r' = Sent"
    and v2: "m_revision (run d1 es) = m_revision d + of_nat (edits es)"
    by (auto simp: v1)
  have f: "req_kind r' = kind" "requestRevision r' = m_revision d" "req_position r' = pos"
    using same by (simp_all add: sameRequest_def)
  have stale: "m_revision (run d1 es) \<noteq> requestRevision r'"
    if "0 < edits es" "edits es < 4294967296"
  proof -
    have "(of_nat (edits es) :: 32 word) \<noteq> 0" using that by (intro of_nat_neq_0) simp_all
    then show ?thesis by (simp add: v2 f)
  qed
  have fresh: "m_revision (run d1 es) = requestRevision r'" if "edits es = 0"
    using that by (simp add: v2 f)
  have A: "onResponse (run d1 es) ?rid payload = run d1 es"
    if "\<exists>e\<in>set es. cancelsOrAnswers kind ?rid e"
    using that hit onResponse_not_Sent [OF r2] by blast
  have B: "delivered (m_lspClient (onResponse (run d1 es) ?rid payload))
             = delivered (m_lspClient (run d1 es))
           \<and> m_cache (onResponse (run d1 es) ?rid payload) = m_cache (run d1 es)"
    if e: "0 < edits es" "edits es < 4294967296"
  proof (cases "req_state r' = Sent")
    case True
    from onResponse_stale(1,2) [OF r2 True stale [OF e]] show ?thesis by simp
  next
    case False
    from onResponse_not_Sent [OF r2 False] show ?thesis by simp
  qed
  have C1: "map_option req_state (requests (m_lspClient (onResponse (run d1 es) ?rid payload)) ?rid)
              = Some Stale"
    if "\<forall>e\<in>set es. \<not> cancelsOrAnswers kind ?rid e" "0 < edits es" "edits es < 4294967296"
    using onResponse_stale(3) [OF r2 _ stale] miss that by blast
  have C2: "delivered (m_lspClient (onResponse (run d1 es) ?rid payload))
              = delivered (m_lspClient (run d1 es)) @ [(?rid, payload)]
            \<and> m_cache (onResponse (run d1 es) ?rid payload)
                = m_cache (run d1 es) @ [\<lparr>cached_kind = kind, cached_position = pos,
                                           cached_value = payload, sourceRevision = m_revision d\<rparr>]
            \<and> map_option req_state (requests (m_lspClient (onResponse (run d1 es) ?rid payload)) ?rid)
                = Some Resolved"
    if n: "\<forall>e\<in>set es. \<not> cancelsOrAnswers kind ?rid e" and z: "edits es = 0"
  proof -
    have s: "req_state r' = Sent" using miss n by blast
    from onResponse_fresh [OF r2 s fresh [OF z]] show ?thesis by (simp add: f)
  qed
  show ?thesis
    unfolding i prod.case Let_def
    using A B C1 C2 by blast
qed


lemma issueRequest_sampleLspDocument:
  "\<exists>d1. issueRequest (sampleLspDocument 5) Hover 4 = (0, d1)
     \<and> m_revision d1 = 5
     \<and> m_cache d1
         = [\<lparr>cached_kind = Hover, cached_position = 4, cached_value = [0x69], sourceRevision = 5\<rparr>]
     \<and> delivered (m_lspClient d1) = []
     \<and> nextId (m_lspClient d1) = 1
     \<and> requests (m_lspClient d1) 0
         = Some \<lparr>req_kind = Hover, requestRevision = 5, req_position = 4, req_state = Sent\<rparr>"
  by (simp add: issueRequest_def Let_def lsp_fields_sampleLspDocument)

text \<open>
  A hover request is issued at revision 5, then a second hover request, with no edit. The
  first request is cancelled: when its response arrives nothing is delivered and nothing
  is cached.
\<close>

theorem response_after_newer_request_counterexample:
  "edits [Issue Hover 9] = 0
   \<and> (case issueRequest (sampleLspDocument 5) Hover 4 of
         (rid, d1) \<Rightarrow>
           let d2 = run d1 [Issue Hover 9]; d3 = onResponse d2 rid [0x68]
           in delivered (m_lspClient d3) = []
              \<and> m_cache d3 = m_cache d2
              \<and> map_option req_state (requests (m_lspClient d3) rid) = Some Cancelled)"
proof -
  from issueRequest_sampleLspDocument obtain d1 where
    i: "issueRequest (sampleLspDocument 5) Hover 4 = (0, d1)"
    and del1: "delivered (m_lspClient d1) = []"
    and n1: "nextId (m_lspClient d1) = 1"
    and r1: "requests (m_lspClient d1) 0
              = Some \<lparr>req_kind = Hover, requestRevision = 5, req_position = 4, req_state = Sent\<rparr>"
    by blast
  let ?d2 = "run d1 [Issue Hover 9]"
  have r2: "requests (m_lspClient ?d2) 0
              = Some \<lparr>req_kind = Hover, requestRevision = 5, req_position = 4, req_state = Cancelled\<rparr>"
    by (simp add: run_def issueRequest_def Let_def n1 r1 cancelKind_def)
  have del2: "delivered (m_lspClient ?d2) = []"
    by (simp add: run_def issueRequest_def Let_def del1)
  have same: "onResponse ?d2 0 [0x68] = ?d2"
    by (rule onResponse_not_Sent [OF r2]) simp
  have e: "edits [Issue Hover 9] = 0" by (simp add: edits_def)
  show ?thesis
    by (simp add: i Let_def same r2 del2 e)
qed

theorem response_discarded_after_edit_delivered_otherwise_witness:
  "(case issueRequest (sampleLspDocument 5) Hover 4 of
      (rid, d1) \<Rightarrow>
        let d2 = run d1 [Close]; d3 = onResponse d2 rid [0x68]
        in cancelsOrAnswers Hover rid Close \<and> d3 = d2)
   \<and> (case issueRequest (sampleLspDocument 5) Hover 4 of
        (rid, d1) \<Rightarrow>
          let d2 = run d1 [Edit 0 0 2]; d3 = onResponse d2 rid [0x68]
          in 0 < edits [Edit 0 0 2] \<and> edits [Edit 0 0 2] < 4294967296
             \<and> m_revision d2 = 6
             \<and> delivered (m_lspClient d3) = [] \<and> m_cache d3 = []
             \<and> map_option req_state (requests (m_lspClient d3) rid) = Some Stale)
   \<and> (case issueRequest (sampleLspDocument 5) Hover 4 of
        (rid, d1) \<Rightarrow>
          let d2 = run d1 []; d3 = onResponse d2 rid [0x68]
          in edits [] = 0
             \<and> delivered (m_lspClient d3) = [(0, [0x68])]
             \<and> m_cache d3
                 = [\<lparr>cached_kind = Hover, cached_position = 4, cached_value = [0x69],
                     sourceRevision = 5\<rparr>,
                    \<lparr>cached_kind = Hover, cached_position = 4, cached_value = [0x68],
                     sourceRevision = 5\<rparr>]
             \<and> map_option req_state (requests (m_lspClient d3) rid) = Some Resolved)"
proof -
  from issueRequest_sampleLspDocument obtain d1 where
    i: "issueRequest (sampleLspDocument 5) Hover 4 = (0, d1)"
    and v1: "m_revision d1 = 5"
    and c1: "m_cache d1
         = [\<lparr>cached_kind = Hover, cached_position = 4, cached_value = [0x69], sourceRevision = 5\<rparr>]"
    and del1: "delivered (m_lspClient d1) = []"
    by blast
  have e1: "edits [Edit 0 0 2] = 1" and e2: "edits [] = 0"
    by (simp_all add: edits_def)
  have closed: "onResponse (run d1 [Close]) 0 [0x68] = run d1 [Close]"
    using response_discarded_after_edit_delivered_otherwise [where d = "sampleLspDocument 5"
        and kind = Hover and pos = 4 and es = "[Close]" and payload = "[0x68]"]
    by (simp add: i Let_def)
  have edited: "delivered (m_lspClient (onResponse (run d1 [Edit 0 0 2]) 0 [0x68]))
                  = delivered (m_lspClient (run d1 [Edit 0 0 2]))
      \<and> m_cache (onResponse (run d1 [Edit 0 0 2]) 0 [0x68]) = m_cache (run d1 [Edit 0 0 2])
      \<and> map_option req_state (requests (m_lspClient (onResponse (run d1 [Edit 0 0 2]) 0 [0x68])) 0)
          = Some Stale"
    using response_discarded_after_edit_delivered_otherwise [where d = "sampleLspDocument 5"
        and kind = Hover and pos = 4 and es = "[Edit 0 0 2]" and payload = "[0x68]"]
    by (simp add: i Let_def e1)
  have answered: "delivered (m_lspClient (onResponse (run d1 []) 0 [0x68]))
                  = delivered (m_lspClient (run d1 [])) @ [(0, [0x68])]
      \<and> m_cache (onResponse (run d1 []) 0 [0x68])
          = m_cache (run d1 []) @ [\<lparr>cached_kind = Hover, cached_position = 4,
                                      cached_value = [0x68], sourceRevision = 5\<rparr>]
      \<and> map_option req_state (requests (m_lspClient (onResponse (run d1 []) 0 [0x68])) 0)
          = Some Resolved"
    using response_discarded_after_edit_delivered_otherwise [where d = "sampleLspDocument 5"
        and kind = Hover and pos = 4 and es = "[]" and payload = "[0x68]"]
    by (simp add: i Let_def e2 lsp_fields_sampleLspDocument)
  have after_edit: "m_revision (run d1 [Edit 0 0 2]) = 6"
    "delivered (m_lspClient (run d1 [Edit 0 0 2])) = []"
    "m_cache (run d1 [Edit 0 0 2]) = []"
    by (simp_all add: run_def v1 c1 del1)
  have after_none: "delivered (m_lspClient (run d1 [])) = []"
    "m_cache (run d1 [])
       = [\<lparr>cached_kind = Hover, cached_position = 4, cached_value = [0x69], sourceRevision = 5\<rparr>]"
    by (simp_all add: run_def c1 del1)
  show ?thesis
    using closed edited answered
    by (simp add: i Let_def e1 e2 after_edit after_none)
qed

end
